theory Spec2Isabelle
  imports Main
begin

section \<open>Favorite-annotated list hooks of heavymath_lib\<close>

text \<open>
  Every hook of the library follows one template: it calls an entity query of the sports
  API client, calls \<^verbatim>\<open>useFavorites\<close> of the indexer client with a fixed
  (category, subcategory, type) triple, annotates each entity with a \<^verbatim>\<open>favorited\<close>
  flag, and returns a \<^verbatim>\<open>setFavorited\<close> operation that issues an add or a remove
  mutation. Three hooks are embedded here, one for each way the identifier of an entity
  is reached:
  \<^item> \<^verbatim>\<open>useBasketballLeagues\<close> (\<^verbatim>\<open>String(league.id)\<close>, a top-level field),
  \<^item> \<^verbatim>\<open>useFootballLeagues\<close> (\<^verbatim>\<open>String(league.league.id)\<close>, a nested field),
  \<^item> \<^verbatim>\<open>useMmaCategories\<close> (the category name itself, a string).

  The other hooks of the repository are the body of \<^verbatim>\<open>useBasketballLeagues\<close> with other
  names and other values of \<^verbatim>\<open>FAVORITES_SUBCATEGORY\<close> and \<^verbatim>\<open>FAVORITES_TYPE\<close>
  (teams, games, fighters and fights of basketball, baseball, handball, volleyball, rugby,
  NFL and MMA), or the body of \<^verbatim>\<open>useFootballLeagues\<close> with another nested path
  (\<^verbatim>\<open>team.team.id\<close>, \<^verbatim>\<open>fixture.fixture.id\<close>, \<^verbatim>\<open>leagueResponse.league.id\<close>).

  The two client packages are external. Their hooks are parameters of the embedded hooks,
  and the shapes of their results are records holding the fields the source reads.
  \<^verbatim>\<open>useMemo\<close> and \<^verbatim>\<open>useCallback\<close> are given complete dependency lists in the
  source, so a memoised value is the value computed from the current inputs.
\<close>

subsection \<open>Data of the external clients\<close>

text \<open>\<^verbatim>\<open>Error | null\<close>: an error value carries its message; \<^verbatim>\<open>null\<close> is \<open>None\<close>.\<close>

datatype Error = Error string

text \<open>
  \<^verbatim>\<open>WalletFavoriteData\<close>: \<^verbatim>\<open>{ id, itemId, category, subcategory, type }\<close>. The field
  \<^verbatim>\<open>id\<close> is the handle of the favorite record (a number in the tests of the
  repository), \<^verbatim>\<open>itemId\<close> the identifier of the favorited entity as a string.
\<close>

record WalletFavoriteData =
  favorite_id :: int
  itemId :: string
  favorite_category :: string
  favorite_subcategory :: string
  favorite_type :: string

text \<open>The third argument of \<^verbatim>\<open>useFavorites\<close>: \<^verbatim>\<open>{ category, subcategory, type }\<close>.\<close>

record FavoritesOptions =
  category :: string
  subcategory :: string
  type' :: string

text \<open>The argument of \<^verbatim>\<open>addFavorite.mutateAsync\<close>: \<^verbatim>\<open>{ category, subcategory, type, id }\<close>.\<close>

record AddFavoriteVariables =
  add_category :: string
  add_subcategory :: string
  add_type :: string
  add_id :: string

text \<open>
  A promise settles: it resolves or it rejects with an error. A mutation object has
  \<^verbatim>\<open>mutateAsync\<close>, whose behaviour belongs to the indexer client (here: how the
  promise it returns settles, for each argument), and the flag \<^verbatim>\<open>isPending\<close>.
\<close>

datatype Settled = Resolved | Rejected Error

record 'v UseMutationResult =
  mutateAsync :: "'v \<Rightarrow> Settled"
  isPending :: bool

text \<open>The result of \<^verbatim>\<open>useFavorites\<close>.\<close>

record UseFavoritesResult =
  favorites :: "WalletFavoriteData list"
  favorites_isLoading :: bool
  favorites_isError :: bool
  favorites_error :: "Error option"
  addFavorite :: "AddFavoriteVariables UseMutationResult"
  removeFavorite :: "int UseMutationResult"

text \<open>
  The result of an entity query: \<^verbatim>\<open>{ data, isLoading, isError, error }\<close>, where
  \<^verbatim>\<open>data\<close> is \<^verbatim>\<open>undefined\<close> (\<open>None\<close>) or an API response with the entity list in
  \<^verbatim>\<open>response\<close>.
\<close>

record 'e ApiResponse =
  response :: "'e list"

record 'e UseQueryResult =
  data :: "'e ApiResponse option"
  query_isLoading :: bool
  query_isError :: bool
  query_error :: "Error option"

subsection \<open>Entities\<close>

text \<open>
  The entity types are declared by the sports API client. Each is a record with the
  identifier the hook reads; the other fields of an entity live in the extension part of
  the record scheme, so the hooks below work for entities with any further fields.
\<close>

record BasketballLeagueResponse =
  basketball_league_id :: int

record FootballLeague =
  football_league_id :: int

record FootballLeagueResponse =
  league :: FootballLeague

text \<open>
  \<^verbatim>\<open>{ ...league, favorited: b }\<close>: the entity with all its fields, and the flag.
  For MMA the source builds \<^verbatim>\<open>{ name: categoryName, favorited: b }\<close>; the entity part
  is then the record with the single field \<^verbatim>\<open>name\<close>.
\<close>

record MmaCategory =
  name :: string

record 'e WithFavorite =
  entity :: 'e
  favorited :: bool

subsection \<open>Effects of \<^verbatim>\<open>setFavorited\<close>\<close>

text \<open>
  The only effects of the library are the calls of the two mutations. A run of the
  asynchronous \<^verbatim>\<open>setFavorited\<close> is the list of mutation calls it issued, in order,
  and the way its promise settled.
\<close>

datatype MutationCall =
  AddFavoriteCall AddFavoriteVariables
| RemoveFavoriteCall int

record AsyncRun =
  calls :: "MutationCall list"
  settled :: Settled

text \<open>
  \<^verbatim>\<open>await m.mutateAsync(v)\<close> as the last statement of an async function: one call, and
  the function settles as the mutation does (a rejection is not caught).
\<close>

definition await_mutateAsync :: "'v UseMutationResult \<Rightarrow> ('v \<Rightarrow> MutationCall) \<Rightarrow> 'v \<Rightarrow> AsyncRun" where
  "await_mutateAsync m call v = \<lparr>calls = [call v], settled = mutateAsync m v\<rparr>"

text \<open>Falling off the end of an async function: no call, the promise resolves.\<close>

definition async_return :: AsyncRun where
  "async_return = \<lparr>calls = [], settled = Resolved\<rparr>"

subsection \<open>\<^verbatim>\<open>String(n)\<close> on identifiers\<close>

text \<open>
  The identifiers of the sports API are integers. On an integer (of magnitude below
  \<open>10\<^sup>2\<^sup>1\<close>) JavaScript's \<^verbatim>\<open>String\<close> gives the decimal numeral, with a leading minus
  sign for a negative number.
\<close>

definition digit_char :: "nat \<Rightarrow> char" where
  "digit_char d = ''0123456789'' ! (d mod 10)"

fun string_of_nat :: "nat \<Rightarrow> string" where
  "string_of_nat n =
     (if n < 10 then [digit_char n] else string_of_nat (n div 10) @ [digit_char (n mod 10)])"

declare string_of_nat.simps [simp del]

definition String :: "int \<Rightarrow> string" where
  "String n = (if n < 0 then CHR ''-'' # string_of_nat (nat (- n)) else string_of_nat (nat n))"

subsection \<open>The result of a hook\<close>

text \<open>
  \<^verbatim>\<open>UseBasketballLeaguesResult\<close>, \<^verbatim>\<open>UseFootballLeaguesResult\<close>,
  \<^verbatim>\<open>UseMmaCategoriesResult\<close>: the same fields in every hook, except that the annotated
  list is called \<^verbatim>\<open>leagues\<close>, \<^verbatim>\<open>teams\<close>, \<^verbatim>\<open>games\<close>, \<^verbatim>\<open>categories\<close>, ...; it is
  \<open>items\<close> here. \<open>'i\<close> is the type of the identifier \<^verbatim>\<open>setFavorited\<close> takes.
\<close>

record ('a, 'i) UseWithFavoritesResult =
  items :: "'a list"
  isLoading :: bool
  isError :: bool
  error :: "Error option"
  setFavorited :: "'i \<Rightarrow> bool \<Rightarrow> AsyncRun"
  favoritesLoading :: bool
  addFavoritePending :: bool
  removeFavoritePending :: bool

subsection \<open>\<^verbatim>\<open>useBasketballLeagues\<close>\<close>

definition FAVORITES_CATEGORY_basketball_league :: string where
  "FAVORITES_CATEGORY_basketball_league = ''sports''"

definition FAVORITES_SUBCATEGORY_basketball_league :: string where
  "FAVORITES_SUBCATEGORY_basketball_league = ''basketball''"

definition FAVORITES_TYPE_basketball_league :: string where
  "FAVORITES_TYPE_basketball_league = ''league''"

definition useBasketballLeagues ::
  "('o option \<Rightarrow> ('z BasketballLeagueResponse_scheme) UseQueryResult) \<Rightarrow>
   ('c \<Rightarrow> string option \<Rightarrow> FavoritesOptions \<Rightarrow> UseFavoritesResult) \<Rightarrow>
   'c \<Rightarrow> string option \<Rightarrow> 'o option \<Rightarrow>
   (('z BasketballLeagueResponse_scheme) WithFavorite, int) UseWithFavoritesResult" where
  "useBasketballLeagues useBasketballLeaguesApi useFavorites indexerClient walletAddress options =
    (let leaguesQuery = useBasketballLeaguesApi options;
         fav = useFavorites indexerClient walletAddress
                 \<lparr>category = FAVORITES_CATEGORY_basketball_league,
                  subcategory = FAVORITES_SUBCATEGORY_basketball_league,
                  type' = FAVORITES_TYPE_basketball_league\<rparr>;
         favoritedIds = set (map itemId (favorites fav));
         leagues =
           map (\<lambda>l. \<lparr>entity = l, favorited = String (basketball_league_id l) \<in> favoritedIds\<rparr>)
             (case data leaguesQuery of None \<Rightarrow> [] | Some d \<Rightarrow> response d)
     in \<lparr>items = leagues,
         isLoading = (query_isLoading leaguesQuery \<or> favorites_isLoading fav),
         isError = query_isError leaguesQuery,
         error = query_error leaguesQuery,
         setFavorited = (\<lambda>leagueId fvd.
           let item = String leagueId in
           if fvd then
             await_mutateAsync (addFavorite fav) AddFavoriteCall
               \<lparr>add_category = FAVORITES_CATEGORY_basketball_league,
                add_subcategory = FAVORITES_SUBCATEGORY_basketball_league,
                add_type = FAVORITES_TYPE_basketball_league,
                add_id = item\<rparr>
           else
             (case find (\<lambda>f. itemId f = item) (favorites fav) of
                Some favorite \<Rightarrow>
                  await_mutateAsync (removeFavorite fav) RemoveFavoriteCall (favorite_id favorite)
              | None \<Rightarrow> async_return)),
         favoritesLoading = favorites_isLoading fav,
         addFavoritePending = isPending (addFavorite fav),
         removeFavoritePending = isPending (removeFavorite fav)\<rparr>)"

subsection \<open>\<^verbatim>\<open>useFootballLeagues\<close>\<close>

definition FAVORITES_CATEGORY_football_league :: string where
  "FAVORITES_CATEGORY_football_league = ''sports''"

definition FAVORITES_SUBCATEGORY_football_league :: string where
  "FAVORITES_SUBCATEGORY_football_league = ''football''"

definition FAVORITES_TYPE_football_league :: string where
  "FAVORITES_TYPE_football_league = ''league''"

definition useFootballLeagues ::
  "('o option \<Rightarrow> ('z FootballLeagueResponse_scheme) UseQueryResult) \<Rightarrow>
   ('c \<Rightarrow> string option \<Rightarrow> FavoritesOptions \<Rightarrow> UseFavoritesResult) \<Rightarrow>
   'c \<Rightarrow> string option \<Rightarrow> 'o option \<Rightarrow>
   (('z FootballLeagueResponse_scheme) WithFavorite, int) UseWithFavoritesResult" where
  "useFootballLeagues useFootballLeaguesApi useFavorites indexerClient walletAddress options =
    (let leaguesQuery = useFootballLeaguesApi options;
         fav = useFavorites indexerClient walletAddress
                 \<lparr>category = FAVORITES_CATEGORY_football_league,
                  subcategory = FAVORITES_SUBCATEGORY_football_league,
                  type' = FAVORITES_TYPE_football_league\<rparr>;
         favoritedIds = set (map itemId (favorites fav));
         leagues =
           map (\<lambda>l. \<lparr>entity = l,
                       favorited = String (football_league_id (league l)) \<in> favoritedIds\<rparr>)
             (case data leaguesQuery of None \<Rightarrow> [] | Some d \<Rightarrow> response d)
     in \<lparr>items = leagues,
         isLoading = (query_isLoading leaguesQuery \<or> favorites_isLoading fav),
         isError = query_isError leaguesQuery,
         error = query_error leaguesQuery,
         setFavorited = (\<lambda>leagueId fvd.
           let item = String leagueId in
           if fvd then
             await_mutateAsync (addFavorite fav) AddFavoriteCall
               \<lparr>add_category = FAVORITES_CATEGORY_football_league,
                add_subcategory = FAVORITES_SUBCATEGORY_football_league,
                add_type = FAVORITES_TYPE_football_league,
                add_id = item\<rparr>
           else
             (case find (\<lambda>f. itemId f = item) (favorites fav) of
                Some favorite \<Rightarrow>
                  await_mutateAsync (removeFavorite fav) RemoveFavoriteCall (favorite_id favorite)
              | None \<Rightarrow> async_return)),
         favoritesLoading = favorites_isLoading fav,
         addFavoritePending = isPending (addFavorite fav),
         removeFavoritePending = isPending (removeFavorite fav)\<rparr>)"

subsection \<open>\<^verbatim>\<open>useMmaCategories\<close>\<close>

text \<open>
  The MMA categories arrive as strings. The hook uses a category name as the item
  identifier as it is, with no call of \<^verbatim>\<open>String\<close>.
\<close>

definition FAVORITES_CATEGORY_mma_category :: string where
  "FAVORITES_CATEGORY_mma_category = ''sports''"

definition FAVORITES_SUBCATEGORY_mma_category :: string where
  "FAVORITES_SUBCATEGORY_mma_category = ''mma''"

definition FAVORITES_TYPE_mma_category :: string where
  "FAVORITES_TYPE_mma_category = ''category''"

definition useMmaCategories ::
  "('o option \<Rightarrow> string UseQueryResult) \<Rightarrow>
   ('c \<Rightarrow> string option \<Rightarrow> FavoritesOptions \<Rightarrow> UseFavoritesResult) \<Rightarrow>
   'c \<Rightarrow> string option \<Rightarrow> 'o option \<Rightarrow>
   (MmaCategory WithFavorite, string) UseWithFavoritesResult" where
  "useMmaCategories useMmaCategoriesApi useFavorites indexerClient walletAddress options =
    (let categoriesQuery = useMmaCategoriesApi options;
         fav = useFavorites indexerClient walletAddress
                 \<lparr>category = FAVORITES_CATEGORY_mma_category,
                  subcategory = FAVORITES_SUBCATEGORY_mma_category,
                  type' = FAVORITES_TYPE_mma_category\<rparr>;
         favoritedIds = set (map itemId (favorites fav));
         categories =
           map (\<lambda>categoryName.
                  \<lparr>entity = \<lparr>name = categoryName\<rparr>, favorited = categoryName \<in> favoritedIds\<rparr>)
             (case data categoriesQuery of None \<Rightarrow> [] | Some d \<Rightarrow> response d)
     in \<lparr>items = categories,
         isLoading = (query_isLoading categoriesQuery \<or> favorites_isLoading fav),
         isError = query_isError categoriesQuery,
         error = query_error categoriesQuery,
         setFavorited = (\<lambda>categoryName fvd.
           if fvd then
             await_mutateAsync (addFavorite fav) AddFavoriteCall
               \<lparr>add_category = FAVORITES_CATEGORY_mma_category,
                add_subcategory = FAVORITES_SUBCATEGORY_mma_category,
                add_type = FAVORITES_TYPE_mma_category,
                add_id = categoryName\<rparr>
           else
             (case find (\<lambda>f. itemId f = categoryName) (favorites fav) of
                Some favorite \<Rightarrow>
                  await_mutateAsync (removeFavorite fav) RemoveFavoriteCall (favorite_id favorite)
              | None \<Rightarrow> async_return)),
         favoritesLoading = favorites_isLoading fav,
         addFavoritePending = isPending (addFavorite fav),
         removeFavoritePending = isPending (removeFavorite fav)\<rparr>)"

text \<open>
  The scope triple of each hook, as the record passed to \<^verbatim>\<open>useFavorites\<close>, and the
  definitions to unfold when a hook is evaluated.
\<close>

lemmas FAVORITES_defs =
  FAVORITES_CATEGORY_basketball_league_def FAVORITES_SUBCATEGORY_basketball_league_def
  FAVORITES_TYPE_basketball_league_def
  FAVORITES_CATEGORY_football_league_def FAVORITES_SUBCATEGORY_football_league_def
  FAVORITES_TYPE_football_league_def
  FAVORITES_CATEGORY_mma_category_def FAVORITES_SUBCATEGORY_mma_category_def
  FAVORITES_TYPE_mma_category_def

lemmas hook_defs =
  useBasketballLeagues_def useFootballLeagues_def useMmaCategories_def Let_def

subsection \<open>Scenarios\<close>

text \<open>
  The inputs of the scenarios of the specification and of the tests of the repository:
  entities with the identifiers 33 and 34, a favorites snapshot, an entity query that
  delivered a list, one that delivered nothing yet, a favorites query that succeeded and
  one that failed.
\<close>

abbreviation basketball_league_scope :: FavoritesOptions where
  "basketball_league_scope \<equiv>
     \<lparr>category = ''sports'', subcategory = ''basketball'', type' = ''league''\<rparr>"

abbreviation football_league_scope :: FavoritesOptions where
  "football_league_scope \<equiv>
     \<lparr>category = ''sports'', subcategory = ''football'', type' = ''league''\<rparr>"

abbreviation mma_category_scope :: FavoritesOptions where
  "mma_category_scope \<equiv>
     \<lparr>category = ''sports'', subcategory = ''mma'', type' = ''category''\<rparr>"

definition mockBasketballLeagues :: "BasketballLeagueResponse list" where
  "mockBasketballLeagues = [\<lparr>basketball_league_id = 33\<rparr>, \<lparr>basketball_league_id = 34\<rparr>]"

definition mockFootballLeagues :: "FootballLeagueResponse list" where
  "mockFootballLeagues =
     [\<lparr>league = \<lparr>football_league_id = 33\<rparr>\<rparr>, \<lparr>league = \<lparr>football_league_id = 34\<rparr>\<rparr>]"

definition mockMmaCategories :: "string list" where
  "mockMmaCategories = [''Flyweight'', ''Bantamweight'']"

definition mockFavorite :: "int \<Rightarrow> string \<Rightarrow> FavoritesOptions \<Rightarrow> WalletFavoriteData" where
  "mockFavorite h item scope =
     \<lparr>favorite_id = h, itemId = item, favorite_category = category scope,
      favorite_subcategory = subcategory scope, favorite_type = type' scope\<rparr>"

definition mockFavorites :: "FavoritesOptions \<Rightarrow> WalletFavoriteData list" where
  "mockFavorites scope =
     (if subcategory scope = ''mma'' then [mockFavorite 7 ''Bantamweight'' scope]
      else [mockFavorite 1 ''33'' scope])"

definition mockDuplicateFavorites :: "FavoritesOptions \<Rightarrow> WalletFavoriteData list" where
  "mockDuplicateFavorites scope =
     (if subcategory scope = ''mma''
      then [mockFavorite 7 ''Bantamweight'' scope, mockFavorite 8 ''Bantamweight'' scope]
      else [mockFavorite 1 ''33'' scope, mockFavorite 2 ''33'' scope])"

definition mockOtherFavorites :: "FavoritesOptions \<Rightarrow> WalletFavoriteData list" where
  "mockOtherFavorites scope =
     (if category scope = ''sports'' then mockFavorites scope
      else [mockFavorite 99 ''34'' scope])"

definition queryDelivered :: "'e list \<Rightarrow> 'o option \<Rightarrow> 'e UseQueryResult" where
  "queryDelivered es opts =
     \<lparr>data = Some \<lparr>response = es\<rparr>, query_isLoading = False, query_isError = False,
      query_error = None\<rparr>"

definition queryNoData :: "'o option \<Rightarrow> 'e UseQueryResult" where
  "queryNoData opts =
     \<lparr>data = None, query_isLoading = True, query_isError = False, query_error = None\<rparr>"

definition mockMutation :: "'v UseMutationResult" where
  "mockMutation = \<lparr>mutateAsync = (\<lambda>v. Resolved), isPending = False\<rparr>"

definition favoritesDelivered ::
  "(FavoritesOptions \<Rightarrow> WalletFavoriteData list) \<Rightarrow> unit \<Rightarrow> string option \<Rightarrow> FavoritesOptions \<Rightarrow>
   UseFavoritesResult" where
  "favoritesDelivered fs indexerClient walletAddress scope =
     \<lparr>favorites = fs scope, favorites_isLoading = False, favorites_isError = False,
      favorites_error = None, addFavorite = mockMutation, removeFavorite = mockMutation\<rparr>"

definition favoritesFailed ::
  "unit \<Rightarrow> string option \<Rightarrow> FavoritesOptions \<Rightarrow> UseFavoritesResult" where
  "favoritesFailed indexerClient walletAddress scope =
     \<lparr>favorites = [], favorites_isLoading = False, favorites_isError = True,
      favorites_error = Some (Error ''Failed to fetch favorites''),
      addFavorite = mockMutation, removeFavorite = mockMutation\<rparr>"

lemmas scenario_defs =
  mockBasketballLeagues_def mockFootballLeagues_def mockMmaCategories_def mockFavorite_def
  mockFavorites_def mockDuplicateFavorites_def mockOtherFavorites_def
  queryDelivered_def queryNoData_def mockMutation_def favoritesDelivered_def
  favoritesFailed_def await_mutateAsync_def async_return_def

section \<open>Properties\<close>

subsection \<open>Auxiliary facts\<close>

lemma String_examples:
  "String 0 = ''0''" "String 1001 = ''1001''" "String (- 120) = ''-120''"
  by code_simp+

lemma String_33: "String 33 = ''33''"
  by code_simp

lemma String_34: "String 34 = ''34''"
  by code_simp

lemma set_map_itemId: "(x \<in> set (map itemId F)) = (\<exists>f\<in>set F. itemId f = x)"
  by auto

lemma find_first_match:
  "(\<exists>f\<in>set F. P f) \<Longrightarrow> \<exists>f\<in>set F. P f \<and> find P F = Some f"
  by (induction F) auto

lemma find_no_match: "(\<forall>f\<in>set F. \<not> P f) \<Longrightarrow> find P F = None"
  by (simp add: find_None_iff)

lemma find_after_prefix:
  "(\<forall>g\<in>set pre. \<not> P g) \<Longrightarrow> P f \<Longrightarrow> find P (pre @ f # post) = Some f"
  by (induction pre) auto

lemma find_Some_member: "find P F = Some f \<Longrightarrow> f \<in> set F"
  by (induction F) (auto split: if_splits)

subsection \<open>The annotated list\<close>

text \<open>
  C1. For every entity list delivered by the entity query and every favorites snapshot,
  the annotated list of a hook has as many items as the entity list; its i-th item is the
  i-th entity, and its \<^verbatim>\<open>favorited\<close> flag is true if and only if some favorite of the
  snapshot has an \<^verbatim>\<open>itemId\<close> equal to the stringified identifier of that entity: the
  \<^verbatim>\<open>id\<close> field (basketball leagues), the nested \<^verbatim>\<open>league.id\<close> (football leagues), or
  the string itself (MMA categories).
\<close>

theorem annotated_list_favorited_iff:
  "(data (apiB opts) = Some dB \<longrightarrow>
      length (items (useBasketballLeagues apiB uf c w opts)) = length (response dB) \<and>
      (\<forall>i<length (response dB).
         entity (items (useBasketballLeagues apiB uf c w opts) ! i) = response dB ! i \<and>
         favorited (items (useBasketballLeagues apiB uf c w opts) ! i) =
           (\<exists>f\<in>set (favorites (uf c w basketball_league_scope)).
              itemId f = String (basketball_league_id (response dB ! i))))) \<and>
   (data (apiF opts) = Some dF \<longrightarrow>
      length (items (useFootballLeagues apiF uf c w opts)) = length (response dF) \<and>
      (\<forall>i<length (response dF).
         entity (items (useFootballLeagues apiF uf c w opts) ! i) = response dF ! i \<and>
         favorited (items (useFootballLeagues apiF uf c w opts) ! i) =
           (\<exists>f\<in>set (favorites (uf c w football_league_scope)).
              itemId f = String (football_league_id (league (response dF ! i)))))) \<and>
   (data (apiM opts) = Some dM \<longrightarrow>
      length (items (useMmaCategories apiM uf c w opts)) = length (response dM) \<and>
      (\<forall>i<length (response dM).
         entity (items (useMmaCategories apiM uf c w opts) ! i) = \<lparr>name = response dM ! i\<rparr> \<and>
         favorited (items (useMmaCategories apiM uf c w opts) ! i) =
           (\<exists>f\<in>set (favorites (uf c w mma_category_scope)).
              itemId f = response dM ! i)))"
  by (simp add: hook_defs FAVORITES_defs set_map_itemId del: set_map)

text \<open>
  The scenario of the specification: entities 33 and 34 with the favorite
  \<^verbatim>\<open>{id: 1, itemId: "33"}\<close> give the flags true and false.
\<close>

theorem annotated_list_favorited_iff_witness:
  "data (queryDelivered mockBasketballLeagues (None :: unit option)) =
     Some \<lparr>response = mockBasketballLeagues\<rparr> \<and>
   map favorited (items (useBasketballLeagues (queryDelivered mockBasketballLeagues)
       (favoritesDelivered mockFavorites) () None (None :: unit option))) = [True, False] \<and>
   data (queryDelivered mockFootballLeagues (None :: unit option)) =
     Some \<lparr>response = mockFootballLeagues\<rparr> \<and>
   map favorited (items (useFootballLeagues (queryDelivered mockFootballLeagues)
       (favoritesDelivered mockFavorites) () None (None :: unit option))) = [True, False] \<and>
   data (queryDelivered mockMmaCategories (None :: unit option)) =
     Some \<lparr>response = mockMmaCategories\<rparr> \<and>
   map favorited (items (useMmaCategories (queryDelivered mockMmaCategories)
       (favoritesDelivered mockFavorites) () None (None :: unit option))) = [False, True]"
  using annotated_list_favorited_iff
    [where apiB = "queryDelivered mockBasketballLeagues"
       and dB = "\<lparr>response = mockBasketballLeagues\<rparr>"
       and apiF = "queryDelivered mockFootballLeagues"
       and dF = "\<lparr>response = mockFootballLeagues\<rparr>"
       and apiM = "queryDelivered mockMmaCategories"
       and dM = "\<lparr>response = mockMmaCategories\<rparr>"
       and opts = "None :: unit option" and c = "()" and w = None
       and uf = "favoritesDelivered mockFavorites"]
  by (simp add: hook_defs FAVORITES_defs scenario_defs String_33 String_34)

subsection \<open>Status fields\<close>

text \<open>
  C7. For every input state, \<^verbatim>\<open>isLoading\<close> of a hook is true if and only if the
  entity fetch is loading or the favorites fetch is loading.
\<close>

theorem isLoading_is_disjunction:
  "isLoading (useBasketballLeagues apiB uf c w opts) =
     (query_isLoading (apiB opts) \<or> favorites_isLoading (uf c w basketball_league_scope)) \<and>
   isLoading (useFootballLeagues apiF uf c w opts) =
     (query_isLoading (apiF opts) \<or> favorites_isLoading (uf c w football_league_scope)) \<and>
   isLoading (useMmaCategories apiM uf c w opts) =
     (query_isLoading (apiM opts) \<or> favorites_isLoading (uf c w mma_category_scope))"
  by (simp add: hook_defs FAVORITES_defs)

text \<open>
  C2. For every input state, \<^verbatim>\<open>isError\<close> and \<^verbatim>\<open>error\<close> of a hook are those of the
  entity query, and the error status of the favorites query affects no returned field:
  changing \<^verbatim>\<open>isError\<close> and \<^verbatim>\<open>error\<close> of the favorites result leaves the whole
  result of the hook as it was. A favorites failure therefore shows only through the
  favorites loading flag and the snapshot; with an empty snapshot every entity is
  annotated as not favorited.
\<close>

theorem entity_error_surfaced_favorites_error_ignored:
  "isError (useBasketballLeagues apiB uf c w opts) = query_isError (apiB opts) \<and>
   error (useBasketballLeagues apiB uf c w opts) = query_error (apiB opts) \<and>
   useBasketballLeagues apiB
       (\<lambda>c' w' s. (uf c' w' s)\<lparr>favorites_isError := b, favorites_error := e\<rparr>) c w opts =
     useBasketballLeagues apiB uf c w opts \<and>
   (favorites (uf c w basketball_league_scope) = [] \<longrightarrow>
      (\<forall>x\<in>set (items (useBasketballLeagues apiB uf c w opts)). \<not> favorited x)) \<and>
   isError (useFootballLeagues apiF uf c w opts) = query_isError (apiF opts) \<and>
   error (useFootballLeagues apiF uf c w opts) = query_error (apiF opts) \<and>
   useFootballLeagues apiF
       (\<lambda>c' w' s. (uf c' w' s)\<lparr>favorites_isError := b, favorites_error := e\<rparr>) c w opts =
     useFootballLeagues apiF uf c w opts \<and>
   (favorites (uf c w football_league_scope) = [] \<longrightarrow>
      (\<forall>x\<in>set (items (useFootballLeagues apiF uf c w opts)). \<not> favorited x)) \<and>
   isError (useMmaCategories apiM uf c w opts) = query_isError (apiM opts) \<and>
   error (useMmaCategories apiM uf c w opts) = query_error (apiM opts) \<and>
   useMmaCategories apiM
       (\<lambda>c' w' s. (uf c' w' s)\<lparr>favorites_isError := b, favorites_error := e\<rparr>) c w opts =
     useMmaCategories apiM uf c w opts \<and>
   (favorites (uf c w mma_category_scope) = [] \<longrightarrow>
      (\<forall>x\<in>set (items (useMmaCategories apiM uf c w opts)). \<not> favorited x))"
  by (auto simp add: hook_defs FAVORITES_defs cong: if_cong option.case_cong)

text \<open>
  A failed favorites fetch beside a successful entity fetch: no error is reported and
  both entities are not favorited.
\<close>

theorem entity_error_surfaced_favorites_error_ignored_witness:
  "favorites (favoritesFailed () None basketball_league_scope) = [] \<and>
   favorites_isError (favoritesFailed () None basketball_league_scope) \<and>
   isError (useBasketballLeagues (queryDelivered mockBasketballLeagues) favoritesFailed
      () None (None :: unit option)) = False \<and>
   error (useBasketballLeagues (queryDelivered mockBasketballLeagues) favoritesFailed
      () None (None :: unit option)) = None \<and>
   map favorited (items (useBasketballLeagues (queryDelivered mockBasketballLeagues)
      favoritesFailed () None (None :: unit option))) = [False, False] \<and>
   favorites (favoritesFailed () None football_league_scope) = [] \<and>
   isError (useFootballLeagues (queryDelivered mockFootballLeagues) favoritesFailed
      () None (None :: unit option)) = False \<and>
   error (useFootballLeagues (queryDelivered mockFootballLeagues) favoritesFailed
      () None (None :: unit option)) = None \<and>
   map favorited (items (useFootballLeagues (queryDelivered mockFootballLeagues)
      favoritesFailed () None (None :: unit option))) = [False, False] \<and>
   favorites (favoritesFailed () None mma_category_scope) = [] \<and>
   isError (useMmaCategories (queryDelivered mockMmaCategories) favoritesFailed
      () None (None :: unit option)) = False \<and>
   error (useMmaCategories (queryDelivered mockMmaCategories) favoritesFailed
      () None (None :: unit option)) = None \<and>
   map favorited (items (useMmaCategories (queryDelivered mockMmaCategories)
      favoritesFailed () None (None :: unit option))) = [False, False]"
  using entity_error_surfaced_favorites_error_ignored
    [where apiB = "queryDelivered mockBasketballLeagues"
       and apiF = "queryDelivered mockFootballLeagues"
       and apiM = "queryDelivered mockMmaCategories"
       and opts = "None :: unit option" and c = "()" and w = None
       and uf = favoritesFailed]
  by (simp add: hook_defs FAVORITES_defs scenario_defs)

subsection \<open>Toggling off\<close>

text \<open>
  C3. When the favorites snapshot contains a record whose \<^verbatim>\<open>itemId\<close> equals the
  stringified identifier, \<^verbatim>\<open>setFavorited(id, false)\<close> issues exactly one mutation call:
  the remove mutation, with the handle (the field \<^verbatim>\<open>id\<close>) of such a record, and it
  settles as that mutation does. No add mutation is issued. The argument of the remove
  mutation is a handle by its type, never the \<^verbatim>\<open>itemId\<close> string.
\<close>

theorem unfavorite_present_removes_by_handle:
  "((\<exists>f\<in>set (favorites (uf c w basketball_league_scope)). itemId f = String leagueId) \<longrightarrow>
      (\<exists>f\<in>set (favorites (uf c w basketball_league_scope)). itemId f = String leagueId \<and>
         setFavorited (useBasketballLeagues apiB uf c w opts) leagueId False =
           \<lparr>calls = [RemoveFavoriteCall (favorite_id f)],
            settled = mutateAsync (removeFavorite (uf c w basketball_league_scope)) (favorite_id f)\<rparr>)) \<and>
   ((\<exists>f\<in>set (favorites (uf c w football_league_scope)). itemId f = String leagueId) \<longrightarrow>
      (\<exists>f\<in>set (favorites (uf c w football_league_scope)). itemId f = String leagueId \<and>
         setFavorited (useFootballLeagues apiF uf c w opts) leagueId False =
           \<lparr>calls = [RemoveFavoriteCall (favorite_id f)],
            settled = mutateAsync (removeFavorite (uf c w football_league_scope)) (favorite_id f)\<rparr>)) \<and>
   ((\<exists>f\<in>set (favorites (uf c w mma_category_scope)). itemId f = categoryName) \<longrightarrow>
      (\<exists>f\<in>set (favorites (uf c w mma_category_scope)). itemId f = categoryName \<and>
         setFavorited (useMmaCategories apiM uf c w opts) categoryName False =
           \<lparr>calls = [RemoveFavoriteCall (favorite_id f)],
            settled = mutateAsync (removeFavorite (uf c w mma_category_scope)) (favorite_id f)\<rparr>))"
proof (intro conjI impI)
  assume "\<exists>f\<in>set (favorites (uf c w basketball_league_scope)). itemId f = String leagueId"
  from find_first_match [of _ "\<lambda>f. itemId f = String leagueId", OF this]
  show "\<exists>f\<in>set (favorites (uf c w basketball_league_scope)). itemId f = String leagueId \<and>
         setFavorited (useBasketballLeagues apiB uf c w opts) leagueId False =
           \<lparr>calls = [RemoveFavoriteCall (favorite_id f)],
            settled = mutateAsync (removeFavorite (uf c w basketball_league_scope)) (favorite_id f)\<rparr>"
    by (auto simp add: hook_defs FAVORITES_defs await_mutateAsync_def)
next
  assume "\<exists>f\<in>set (favorites (uf c w football_league_scope)). itemId f = String leagueId"
  from find_first_match [of _ "\<lambda>f. itemId f = String leagueId", OF this]
  show "\<exists>f\<in>set (favorites (uf c w football_league_scope)). itemId f = String leagueId \<and>
         setFavorited (useFootballLeagues apiF uf c w opts) leagueId False =
           \<lparr>calls = [RemoveFavoriteCall (favorite_id f)],
            settled = mutateAsync (removeFavorite (uf c w football_league_scope)) (favorite_id f)\<rparr>"
    by (auto simp add: hook_defs FAVORITES_defs await_mutateAsync_def)
next
  assume "\<exists>f\<in>set (favorites (uf c w mma_category_scope)). itemId f = categoryName"
  from find_first_match [of _ "\<lambda>f. itemId f = categoryName", OF this]
  show "\<exists>f\<in>set (favorites (uf c w mma_category_scope)). itemId f = categoryName \<and>
         setFavorited (useMmaCategories apiM uf c w opts) categoryName False =
           \<lparr>calls = [RemoveFavoriteCall (favorite_id f)],
            settled = mutateAsync (removeFavorite (uf c w mma_category_scope)) (favorite_id f)\<rparr>"
    by (auto simp add: hook_defs FAVORITES_defs await_mutateAsync_def)
qed

text \<open>
  The scenario of the specification: \<^verbatim>\<open>setFavorited(33, false)\<close> with the favorite
  \<^verbatim>\<open>{id: 1, itemId: "33"}\<close> calls the remove mutation with 1.
\<close>

theorem unfavorite_present_removes_by_handle_witness:
  "(\<exists>f\<in>set (favorites (favoritesDelivered mockFavorites () None basketball_league_scope)).
      itemId f = String 33) \<and>
   setFavorited (useBasketballLeagues (queryDelivered mockBasketballLeagues)
      (favoritesDelivered mockFavorites) () None (None :: unit option)) 33 False =
     \<lparr>calls = [RemoveFavoriteCall 1], settled = Resolved\<rparr> \<and>
   (\<exists>f\<in>set (favorites (favoritesDelivered mockFavorites () None football_league_scope)).
      itemId f = String 33) \<and>
   setFavorited (useFootballLeagues (queryDelivered mockFootballLeagues)
      (favoritesDelivered mockFavorites) () None (None :: unit option)) 33 False =
     \<lparr>calls = [RemoveFavoriteCall 1], settled = Resolved\<rparr> \<and>
   (\<exists>f\<in>set (favorites (favoritesDelivered mockFavorites () None mma_category_scope)).
      itemId f = ''Bantamweight'') \<and>
   setFavorited (useMmaCategories (queryDelivered mockMmaCategories)
      (favoritesDelivered mockFavorites) () None (None :: unit option)) ''Bantamweight'' False =
     \<lparr>calls = [RemoveFavoriteCall 7], settled = Resolved\<rparr>"
  using unfavorite_present_removes_by_handle
    [where apiB = "queryDelivered mockBasketballLeagues"
       and apiF = "queryDelivered mockFootballLeagues"
       and apiM = "queryDelivered mockMmaCategories"
       and opts = "None :: unit option" and c = "()" and w = None
       and uf = "favoritesDelivered mockFavorites" and leagueId = 33
       and categoryName = "''Bantamweight''"]
  by (simp add: hook_defs FAVORITES_defs scenario_defs String_33)

text \<open>
  C4. When the favorites snapshot contains no record whose \<^verbatim>\<open>itemId\<close> equals the
  stringified identifier, \<^verbatim>\<open>setFavorited(id, false)\<close> issues no mutation call and its
  promise resolves.
\<close>

theorem unfavorite_absent_is_noop:
  "((\<forall>f\<in>set (favorites (uf c w basketball_league_scope)). itemId f \<noteq> String leagueId) \<longrightarrow>
      setFavorited (useBasketballLeagues apiB uf c w opts) leagueId False =
        \<lparr>calls = [], settled = Resolved\<rparr>) \<and>
   ((\<forall>f\<in>set (favorites (uf c w football_league_scope)). itemId f \<noteq> String leagueId) \<longrightarrow>
      setFavorited (useFootballLeagues apiF uf c w opts) leagueId False =
        \<lparr>calls = [], settled = Resolved\<rparr>) \<and>
   ((\<forall>f\<in>set (favorites (uf c w mma_category_scope)). itemId f \<noteq> categoryName) \<longrightarrow>
      setFavorited (useMmaCategories apiM uf c w opts) categoryName False =
        \<lparr>calls = [], settled = Resolved\<rparr>)"
  by (simp add: hook_defs FAVORITES_defs async_return_def find_no_match)

text \<open>
  The scenario of the specification: \<^verbatim>\<open>setFavorited(34, false)\<close> with no matching
  favorite.
\<close>

theorem unfavorite_absent_is_noop_witness:
  "String 34 \<notin>
      set (map itemId (favorites (favoritesDelivered mockFavorites () None basketball_league_scope))) \<and>
   setFavorited (useBasketballLeagues (queryDelivered mockBasketballLeagues)
      (favoritesDelivered mockFavorites) () None (None :: unit option)) 34 False =
     \<lparr>calls = [], settled = Resolved\<rparr> \<and>
   String 34 \<notin>
      set (map itemId (favorites (favoritesDelivered mockFavorites () None football_league_scope))) \<and>
   setFavorited (useFootballLeagues (queryDelivered mockFootballLeagues)
      (favoritesDelivered mockFavorites) () None (None :: unit option)) 34 False =
     \<lparr>calls = [], settled = Resolved\<rparr> \<and>
   ''Flyweight'' \<notin>
      set (map itemId (favorites (favoritesDelivered mockFavorites () None mma_category_scope))) \<and>
   setFavorited (useMmaCategories (queryDelivered mockMmaCategories)
      (favoritesDelivered mockFavorites) () None (None :: unit option)) ''Flyweight'' False =
     \<lparr>calls = [], settled = Resolved\<rparr>"
  using unfavorite_absent_is_noop
    [where apiB = "queryDelivered mockBasketballLeagues"
       and apiF = "queryDelivered mockFootballLeagues"
       and apiM = "queryDelivered mockMmaCategories"
       and opts = "None :: unit option" and c = "()" and w = None
       and uf = "favoritesDelivered mockFavorites" and leagueId = 34
       and categoryName = "''Flyweight''"]
  by (simp add: hook_defs FAVORITES_defs scenario_defs String_34)

text \<open>
  C10. When the favorites snapshot contains two or more records whose \<^verbatim>\<open>itemId\<close>
  equals the stringified identifier, \<^verbatim>\<open>setFavorited(id, false)\<close> issues exactly one
  remove mutation, with the handle of the first matching record in the order of the
  snapshot; no call is issued for a later duplicate.
\<close>

theorem unfavorite_duplicates_removes_first:
  "(favorites (uf c w basketball_league_scope) = pre @ f # mid @ g # post \<and>
    (\<forall>x\<in>set pre. itemId x \<noteq> String leagueId) \<and>
    itemId f = String leagueId \<and> itemId g = String leagueId \<longrightarrow>
      setFavorited (useBasketballLeagues apiB uf c w opts) leagueId False =
        \<lparr>calls = [RemoveFavoriteCall (favorite_id f)],
         settled = mutateAsync (removeFavorite (uf c w basketball_league_scope)) (favorite_id f)\<rparr>) \<and>
   (favorites (uf c w football_league_scope) = pre @ f # mid @ g # post \<and>
    (\<forall>x\<in>set pre. itemId x \<noteq> String leagueId) \<and>
    itemId f = String leagueId \<and> itemId g = String leagueId \<longrightarrow>
      setFavorited (useFootballLeagues apiF uf c w opts) leagueId False =
        \<lparr>calls = [RemoveFavoriteCall (favorite_id f)],
         settled = mutateAsync (removeFavorite (uf c w football_league_scope)) (favorite_id f)\<rparr>) \<and>
   (favorites (uf c w mma_category_scope) = pre @ f # mid @ g # post \<and>
    (\<forall>x\<in>set pre. itemId x \<noteq> categoryName) \<and>
    itemId f = categoryName \<and> itemId g = categoryName \<longrightarrow>
      setFavorited (useMmaCategories apiM uf c w opts) categoryName False =
        \<lparr>calls = [RemoveFavoriteCall (favorite_id f)],
         settled = mutateAsync (removeFavorite (uf c w mma_category_scope)) (favorite_id f)\<rparr>)"
  by (simp add: hook_defs FAVORITES_defs await_mutateAsync_def find_after_prefix)

text \<open>
  Two favorites with the handles 1 and 2 for the same item 33: only the handle 1 is
  passed to the remove mutation.
\<close>

theorem unfavorite_duplicates_removes_first_witness:
  "favorites (favoritesDelivered mockDuplicateFavorites () None basketball_league_scope) =
     [] @ mockFavorite 1 ''33'' basketball_league_scope # [] @
       mockFavorite 2 ''33'' basketball_league_scope # [] \<and>
   itemId (mockFavorite 1 ''33'' basketball_league_scope) = String 33 \<and>
   itemId (mockFavorite 2 ''33'' basketball_league_scope) = String 33 \<and>
   setFavorited (useBasketballLeagues (queryDelivered mockBasketballLeagues)
      (favoritesDelivered mockDuplicateFavorites) () None (None :: unit option)) 33 False =
     \<lparr>calls = [RemoveFavoriteCall 1], settled = Resolved\<rparr> \<and>
   favorites (favoritesDelivered mockDuplicateFavorites () None football_league_scope) =
     [] @ mockFavorite 1 ''33'' football_league_scope # [] @
       mockFavorite 2 ''33'' football_league_scope # [] \<and>
   setFavorited (useFootballLeagues (queryDelivered mockFootballLeagues)
      (favoritesDelivered mockDuplicateFavorites) () None (None :: unit option)) 33 False =
     \<lparr>calls = [RemoveFavoriteCall 1], settled = Resolved\<rparr> \<and>
   favorites (favoritesDelivered mockDuplicateFavorites () None mma_category_scope) =
     [] @ mockFavorite 7 ''Bantamweight'' mma_category_scope # [] @
       mockFavorite 8 ''Bantamweight'' mma_category_scope # [] \<and>
   setFavorited (useMmaCategories (queryDelivered mockMmaCategories)
      (favoritesDelivered mockDuplicateFavorites) () None (None :: unit option))
      ''Bantamweight'' False =
     \<lparr>calls = [RemoveFavoriteCall 7], settled = Resolved\<rparr>"
  using
    unfavorite_duplicates_removes_first
      [where apiB = "queryDelivered mockBasketballLeagues"
         and apiF = "queryDelivered mockFootballLeagues"
         and apiM = "queryDelivered mockMmaCategories"
         and opts = "None :: unit option" and c = "()" and w = None
         and uf = "favoritesDelivered mockDuplicateFavorites"
         and leagueId = 33 and categoryName = "''Bantamweight''"
         and pre = "[]" and mid = "[]" and post = "[]"
         and f = "mockFavorite 1 ''33'' basketball_league_scope"
         and g = "mockFavorite 2 ''33'' basketball_league_scope"]
    unfavorite_duplicates_removes_first
      [where apiB = "queryDelivered mockBasketballLeagues"
         and apiF = "queryDelivered mockFootballLeagues"
         and apiM = "queryDelivered mockMmaCategories"
         and opts = "None :: unit option" and c = "()" and w = None
         and uf = "favoritesDelivered mockDuplicateFavorites"
         and leagueId = 33 and categoryName = "''Bantamweight''"
         and pre = "[]" and mid = "[]" and post = "[]"
         and f = "mockFavorite 1 ''33'' football_league_scope"
         and g = "mockFavorite 2 ''33'' football_league_scope"]
    unfavorite_duplicates_removes_first
      [where apiB = "queryDelivered mockBasketballLeagues"
         and apiF = "queryDelivered mockFootballLeagues"
         and apiM = "queryDelivered mockMmaCategories"
         and opts = "None :: unit option" and c = "()" and w = None
         and uf = "favoritesDelivered mockDuplicateFavorites"
         and leagueId = 33 and categoryName = "''Bantamweight''"
         and pre = "[]" and mid = "[]" and post = "[]"
         and f = "mockFavorite 7 ''Bantamweight'' mma_category_scope"
         and g = "mockFavorite 8 ''Bantamweight'' mma_category_scope"]
  by (simp add: hook_defs FAVORITES_defs scenario_defs String_33)

subsection \<open>Toggling on\<close>

text \<open>
  C5. For every identifier, \<^verbatim>\<open>setFavorited(id, true)\<close> issues exactly one mutation
  call, the add mutation with the object made of the scope triple of the hook and the
  stringified identifier, and it settles as that mutation does (it awaits the mutation
  and does not catch a rejection). There is no local update: a run consists of the
  mutation calls and the settlement only, and the annotated list is computed from the
  snapshot that \<^verbatim>\<open>useFavorites\<close> delivers, whatever the mutation objects are.
\<close>

theorem favorite_adds_with_scope_and_id:
  "setFavorited (useBasketballLeagues apiB uf c w opts) leagueId True =
     \<lparr>calls = [AddFavoriteCall
        \<lparr>add_category = ''sports'', add_subcategory = ''basketball'', add_type = ''league'',
         add_id = String leagueId\<rparr>],
      settled = mutateAsync (addFavorite (uf c w basketball_league_scope))
        \<lparr>add_category = ''sports'', add_subcategory = ''basketball'', add_type = ''league'',
         add_id = String leagueId\<rparr>\<rparr> \<and>
   setFavorited (useFootballLeagues apiF uf c w opts) leagueId True =
     \<lparr>calls = [AddFavoriteCall
        \<lparr>add_category = ''sports'', add_subcategory = ''football'', add_type = ''league'',
         add_id = String leagueId\<rparr>],
      settled = mutateAsync (addFavorite (uf c w football_league_scope))
        \<lparr>add_category = ''sports'', add_subcategory = ''football'', add_type = ''league'',
         add_id = String leagueId\<rparr>\<rparr> \<and>
   setFavorited (useMmaCategories apiM uf c w opts) categoryName True =
     \<lparr>calls = [AddFavoriteCall
        \<lparr>add_category = ''sports'', add_subcategory = ''mma'', add_type = ''category'',
         add_id = categoryName\<rparr>],
      settled = mutateAsync (addFavorite (uf c w mma_category_scope))
        \<lparr>add_category = ''sports'', add_subcategory = ''mma'', add_type = ''category'',
         add_id = categoryName\<rparr>\<rparr> \<and>
   items (useBasketballLeagues apiB
       (\<lambda>c' w' s. (uf c' w' s)\<lparr>addFavorite := ma, removeFavorite := mr\<rparr>) c w opts) =
     items (useBasketballLeagues apiB uf c w opts) \<and>
   items (useFootballLeagues apiF
       (\<lambda>c' w' s. (uf c' w' s)\<lparr>addFavorite := ma, removeFavorite := mr\<rparr>) c w opts) =
     items (useFootballLeagues apiF uf c w opts) \<and>
   items (useMmaCategories apiM
       (\<lambda>c' w' s. (uf c' w' s)\<lparr>addFavorite := ma, removeFavorite := mr\<rparr>) c w opts) =
     items (useMmaCategories apiM uf c w opts)"
  by (simp add: hook_defs FAVORITES_defs await_mutateAsync_def)

text \<open>
  C6. For every favorites snapshot, \<^verbatim>\<open>setFavorited(id, true)\<close> issues the add
  mutation, also when the snapshot already contains a favorite whose \<^verbatim>\<open>itemId\<close>
  equals the stringified identifier: the favorited path has no membership check.
\<close>

theorem favorite_adds_regardless_of_snapshot:
  "calls (setFavorited (useBasketballLeagues apiB uf c w opts) leagueId True) =
     [AddFavoriteCall
        \<lparr>add_category = ''sports'', add_subcategory = ''basketball'', add_type = ''league'',
         add_id = String leagueId\<rparr>] \<and>
   calls (setFavorited (useFootballLeagues apiF uf c w opts) leagueId True) =
     [AddFavoriteCall
        \<lparr>add_category = ''sports'', add_subcategory = ''football'', add_type = ''league'',
         add_id = String leagueId\<rparr>] \<and>
   calls (setFavorited (useMmaCategories apiM uf c w opts) categoryName True) =
     [AddFavoriteCall
        \<lparr>add_category = ''sports'', add_subcategory = ''mma'', add_type = ''category'',
         add_id = categoryName\<rparr>] \<and>
   ((\<exists>f\<in>set (favorites (uf c w basketball_league_scope)). itemId f = String leagueId) \<longrightarrow>
      calls (setFavorited (useBasketballLeagues apiB uf c w opts) leagueId True) =
        [AddFavoriteCall
           \<lparr>add_category = ''sports'', add_subcategory = ''basketball'', add_type = ''league'',
            add_id = String leagueId\<rparr>]) \<and>
   ((\<exists>f\<in>set (favorites (uf c w football_league_scope)). itemId f = String leagueId) \<longrightarrow>
      calls (setFavorited (useFootballLeagues apiF uf c w opts) leagueId True) =
        [AddFavoriteCall
           \<lparr>add_category = ''sports'', add_subcategory = ''football'', add_type = ''league'',
            add_id = String leagueId\<rparr>]) \<and>
   ((\<exists>f\<in>set (favorites (uf c w mma_category_scope)). itemId f = categoryName) \<longrightarrow>
      calls (setFavorited (useMmaCategories apiM uf c w opts) categoryName True) =
        [AddFavoriteCall
           \<lparr>add_category = ''sports'', add_subcategory = ''mma'', add_type = ''category'',
            add_id = categoryName\<rparr>])"
  by (simp add: hook_defs FAVORITES_defs await_mutateAsync_def)

text \<open>
  Item 33 is already a favorite in the scenario; the add mutation is issued all the same.
\<close>

theorem favorite_adds_regardless_of_snapshot_witness:
  "(\<exists>f\<in>set (favorites (favoritesDelivered mockFavorites () None basketball_league_scope)).
      itemId f = String 33) \<and>
   calls (setFavorited (useBasketballLeagues (queryDelivered mockBasketballLeagues)
      (favoritesDelivered mockFavorites) () None (None :: unit option)) 33 True) =
     [AddFavoriteCall
        \<lparr>add_category = ''sports'', add_subcategory = ''basketball'', add_type = ''league'',
         add_id = ''33''\<rparr>] \<and>
   (\<exists>f\<in>set (favorites (favoritesDelivered mockFavorites () None football_league_scope)).
      itemId f = String 33) \<and>
   calls (setFavorited (useFootballLeagues (queryDelivered mockFootballLeagues)
      (favoritesDelivered mockFavorites) () None (None :: unit option)) 33 True) =
     [AddFavoriteCall
        \<lparr>add_category = ''sports'', add_subcategory = ''football'', add_type = ''league'',
         add_id = ''33''\<rparr>] \<and>
   (\<exists>f\<in>set (favorites (favoritesDelivered mockFavorites () None mma_category_scope)).
      itemId f = ''Bantamweight'') \<and>
   calls (setFavorited (useMmaCategories (queryDelivered mockMmaCategories)
      (favoritesDelivered mockFavorites) () None (None :: unit option)) ''Bantamweight'' True) =
     [AddFavoriteCall
        \<lparr>add_category = ''sports'', add_subcategory = ''mma'', add_type = ''category'',
         add_id = ''Bantamweight''\<rparr>]"
  using favorite_adds_regardless_of_snapshot
    [where apiB = "queryDelivered mockBasketballLeagues"
       and apiF = "queryDelivered mockFootballLeagues"
       and apiM = "queryDelivered mockMmaCategories"
       and opts = "None :: unit option" and c = "()" and w = None
       and uf = "favoritesDelivered mockFavorites" and leagueId = 33
       and categoryName = "''Bantamweight''"]
  by (simp add: hook_defs FAVORITES_defs scenario_defs String_33)

subsection \<open>No data\<close>

text \<open>
  C8. When the entity query has no data (\<^verbatim>\<open>undefined\<close>), the annotated list of a hook
  is empty, and \<^verbatim>\<open>isError\<close> and \<^verbatim>\<open>error\<close> are still those of the entity query: the
  missing data is not reported as an error.
\<close>

theorem no_data_gives_empty_list:
  "(data (apiB opts) = None \<longrightarrow>
      items (useBasketballLeagues apiB uf c w opts) = [] \<and>
      isError (useBasketballLeagues apiB uf c w opts) = query_isError (apiB opts) \<and>
      error (useBasketballLeagues apiB uf c w opts) = query_error (apiB opts)) \<and>
   (data (apiF opts) = None \<longrightarrow>
      items (useFootballLeagues apiF uf c w opts) = [] \<and>
      isError (useFootballLeagues apiF uf c w opts) = query_isError (apiF opts) \<and>
      error (useFootballLeagues apiF uf c w opts) = query_error (apiF opts)) \<and>
   (data (apiM opts) = None \<longrightarrow>
      items (useMmaCategories apiM uf c w opts) = [] \<and>
      isError (useMmaCategories apiM uf c w opts) = query_isError (apiM opts) \<and>
      error (useMmaCategories apiM uf c w opts) = query_error (apiM opts))"
  by (simp add: hook_defs FAVORITES_defs)

text \<open>An entity query that is still loading: an empty list and no error.\<close>

theorem no_data_gives_empty_list_witness:
  "data (queryNoData (None :: unit option) :: BasketballLeagueResponse UseQueryResult) = None \<and>
   items (useBasketballLeagues queryNoData (favoritesDelivered mockFavorites) () None
      (None :: unit option) ::
      (BasketballLeagueResponse WithFavorite, int) UseWithFavoritesResult) = [] \<and>
   \<not> isError (useBasketballLeagues queryNoData (favoritesDelivered mockFavorites) () None
      (None :: unit option) ::
      (BasketballLeagueResponse WithFavorite, int) UseWithFavoritesResult) \<and>
   error (useBasketballLeagues queryNoData (favoritesDelivered mockFavorites) () None
      (None :: unit option) ::
      (BasketballLeagueResponse WithFavorite, int) UseWithFavoritesResult) = None \<and>
   data (queryNoData (None :: unit option) :: FootballLeagueResponse UseQueryResult) = None \<and>
   items (useFootballLeagues queryNoData (favoritesDelivered mockFavorites) () None
      (None :: unit option) ::
      (FootballLeagueResponse WithFavorite, int) UseWithFavoritesResult) = [] \<and>
   \<not> isError (useFootballLeagues queryNoData (favoritesDelivered mockFavorites) () None
      (None :: unit option) ::
      (FootballLeagueResponse WithFavorite, int) UseWithFavoritesResult) \<and>
   error (useFootballLeagues queryNoData (favoritesDelivered mockFavorites) () None
      (None :: unit option) ::
      (FootballLeagueResponse WithFavorite, int) UseWithFavoritesResult) = None \<and>
   data (queryNoData (None :: unit option) :: string UseQueryResult) = None \<and>
   items (useMmaCategories queryNoData (favoritesDelivered mockFavorites) () None
      (None :: unit option)) = [] \<and>
   \<not> isError (useMmaCategories queryNoData (favoritesDelivered mockFavorites) () None
      (None :: unit option)) \<and>
   error (useMmaCategories queryNoData (favoritesDelivered mockFavorites) () None
      (None :: unit option)) = None"
  using no_data_gives_empty_list
    [where apiB = "queryNoData :: unit option \<Rightarrow> BasketballLeagueResponse UseQueryResult"
       and apiF = "queryNoData :: unit option \<Rightarrow> FootballLeagueResponse UseQueryResult"
       and apiM = "queryNoData :: unit option \<Rightarrow> string UseQueryResult"
       and opts = "None :: unit option" and c = "()" and w = None
       and uf = "favoritesDelivered mockFavorites"]
  by (simp add: hook_defs FAVORITES_defs scenario_defs)

subsection \<open>The scope of a hook\<close>

text \<open>
  C9. A hook reads the favorites at its fixed (category, subcategory, type) triple only:
  two favorites sources that agree at this triple (for the given client and wallet) give
  the same result of the hook. Every add mutation issued through \<^verbatim>\<open>setFavorited\<close>
  carries the same triple, and every remove mutation carries the handle of a favorite of
  the snapshot fetched at this triple.
\<close>

theorem favorites_scope_fixed:
  "(uf c w basketball_league_scope = uf' c w basketball_league_scope \<longrightarrow>
      useBasketballLeagues apiB uf c w opts = useBasketballLeagues apiB uf' c w opts) \<and>
   (\<forall>call\<in>set (calls (setFavorited (useBasketballLeagues apiB uf c w opts) leagueId fvd)).
      (\<forall>v. call = AddFavoriteCall v \<longrightarrow>
         add_category v = ''sports'' \<and> add_subcategory v = ''basketball'' \<and>
         add_type v = ''league'') \<and>
      (\<forall>h. call = RemoveFavoriteCall h \<longrightarrow>
         (\<exists>f\<in>set (favorites (uf c w basketball_league_scope)). favorite_id f = h))) \<and>
   (uf c w football_league_scope = uf' c w football_league_scope \<longrightarrow>
      useFootballLeagues apiF uf c w opts = useFootballLeagues apiF uf' c w opts) \<and>
   (\<forall>call\<in>set (calls (setFavorited (useFootballLeagues apiF uf c w opts) leagueId fvd)).
      (\<forall>v. call = AddFavoriteCall v \<longrightarrow>
         add_category v = ''sports'' \<and> add_subcategory v = ''football'' \<and>
         add_type v = ''league'') \<and>
      (\<forall>h. call = RemoveFavoriteCall h \<longrightarrow>
         (\<exists>f\<in>set (favorites (uf c w football_league_scope)). favorite_id f = h))) \<and>
   (uf c w mma_category_scope = uf' c w mma_category_scope \<longrightarrow>
      useMmaCategories apiM uf c w opts = useMmaCategories apiM uf' c w opts) \<and>
   (\<forall>call\<in>set (calls (setFavorited (useMmaCategories apiM uf c w opts) categoryName fvd)).
      (\<forall>v. call = AddFavoriteCall v \<longrightarrow>
         add_category v = ''sports'' \<and> add_subcategory v = ''mma'' \<and>
         add_type v = ''category'') \<and>
      (\<forall>h. call = RemoveFavoriteCall h \<longrightarrow>
         (\<exists>f\<in>set (favorites (uf c w mma_category_scope)). favorite_id f = h)))"
  by (auto simp add: hook_defs FAVORITES_defs await_mutateAsync_def async_return_def
      split: option.splits dest: find_Some_member)

text \<open>
  Two favorites sources that differ outside the category \<^verbatim>\<open>sports\<close> only: the hooks
  cannot tell them apart, and the add mutation for item 34 carries the triple of the hook.
\<close>

theorem favorites_scope_fixed_witness:
  "favoritesDelivered mockFavorites () None basketball_league_scope =
     favoritesDelivered mockOtherFavorites () None basketball_league_scope \<and>
   favoritesDelivered mockFavorites \<noteq> favoritesDelivered mockOtherFavorites \<and>
   useBasketballLeagues (queryDelivered mockBasketballLeagues)
      (favoritesDelivered mockFavorites) () None (None :: unit option) =
     useBasketballLeagues (queryDelivered mockBasketballLeagues)
      (favoritesDelivered mockOtherFavorites) () None None \<and>
   calls (setFavorited (useBasketballLeagues (queryDelivered mockBasketballLeagues)
      (favoritesDelivered mockFavorites) () None (None :: unit option)) 34 True) =
     [AddFavoriteCall
        \<lparr>add_category = ''sports'', add_subcategory = ''basketball'', add_type = ''league'',
         add_id = ''34''\<rparr>] \<and>
   favoritesDelivered mockFavorites () None football_league_scope =
     favoritesDelivered mockOtherFavorites () None football_league_scope \<and>
   useFootballLeagues (queryDelivered mockFootballLeagues)
      (favoritesDelivered mockFavorites) () None (None :: unit option) =
     useFootballLeagues (queryDelivered mockFootballLeagues)
      (favoritesDelivered mockOtherFavorites) () None None \<and>
   calls (setFavorited (useFootballLeagues (queryDelivered mockFootballLeagues)
      (favoritesDelivered mockFavorites) () None (None :: unit option)) 34 True) =
     [AddFavoriteCall
        \<lparr>add_category = ''sports'', add_subcategory = ''football'', add_type = ''league'',
         add_id = ''34''\<rparr>] \<and>
   favoritesDelivered mockFavorites () None mma_category_scope =
     favoritesDelivered mockOtherFavorites () None mma_category_scope \<and>
   useMmaCategories (queryDelivered mockMmaCategories)
      (favoritesDelivered mockFavorites) () None (None :: unit option) =
     useMmaCategories (queryDelivered mockMmaCategories)
      (favoritesDelivered mockOtherFavorites) () None None \<and>
   calls (setFavorited (useMmaCategories (queryDelivered mockMmaCategories)
      (favoritesDelivered mockFavorites) () None (None :: unit option)) ''Flyweight'' True) =
     [AddFavoriteCall
        \<lparr>add_category = ''sports'', add_subcategory = ''mma'', add_type = ''category'',
         add_id = ''Flyweight''\<rparr>]"
proof -
  have differ: "favoritesDelivered mockFavorites \<noteq> favoritesDelivered mockOtherFavorites"
  proof
    assume "favoritesDelivered mockFavorites = favoritesDelivered mockOtherFavorites"
    then have "favoritesDelivered mockFavorites () None
                 \<lparr>category = ''music'', subcategory = ''basketball'', type' = ''league''\<rparr> =
               favoritesDelivered mockOtherFavorites () None
                 \<lparr>category = ''music'', subcategory = ''basketball'', type' = ''league''\<rparr>"
      by simp
    then show False
      by (simp add: scenario_defs)
  qed
  show ?thesis
    using differ favorites_scope_fixed
      [where apiB = "queryDelivered mockBasketballLeagues"
         and apiF = "queryDelivered mockFootballLeagues"
         and apiM = "queryDelivered mockMmaCategories"
         and opts = "None :: unit option" and c = "()" and w = None
         and uf = "favoritesDelivered mockFavorites"
         and uf' = "favoritesDelivered mockOtherFavorites"
         and leagueId = 34 and categoryName = "''Flyweight''" and fvd = True]
    by (simp add: hook_defs FAVORITES_defs scenario_defs String_34)
qed

end
